theory Spec2Isabelle
  imports Main "HOL-Library.Sublist" "HOL-Library.AList"
begin

section \<open>Python strings\<close>

text \<open>
  A Python \<open>str\<close> is modelled as a \<^typ>\<open>string\<close>, one \<^typ>\<open>char\<close> per code point
  (code points below 256). The methods used by the plugins are written out below with the
  meaning they have in Python.
\<close>

abbreviation LF :: char where "LF \<equiv> CHR 0x0A"
abbreviation CR :: char where "CR \<equiv> CHR 0x0D"

text \<open>\<open>s.startswith(p)\<close> and \<open>s.endswith(p)\<close>.\<close>

definition startswith :: "string \<Rightarrow> string \<Rightarrow> bool" where
  "startswith s p = (take (length p) s = p)"

definition endswith :: "string \<Rightarrow> string \<Rightarrow> bool" where
  "endswith s p = (length p \<le> length s \<and> drop (length s - length p) s = p)"

text \<open>\<open>s.endswith((p1, p2, ...))\<close>: one of the suffixes of the tuple matches.\<close>

definition endswith_any :: "string \<Rightarrow> string list \<Rightarrow> bool" where
  "endswith_any s ps = list_ex (endswith s) ps"

text \<open>
  The line boundaries of \<open>str.splitlines\<close> among the code points below 256: line feed,
  carriage return, vertical tab, form feed, file, group and record separator, next line.
\<close>

definition is_linebreak :: "char \<Rightarrow> bool" where
  "is_linebreak c =
     (c = LF \<or> c = CR \<or> c = CHR 0x0B \<or> c = CHR 0x0C \<or> c = CHR 0x1C \<or> c = CHR 0x1D \<or>
      c = CHR 0x1E \<or> c = CHR 0x85)"

text \<open>
  \<open>s.splitlines()\<close>: the lines of \<open>s\<close> without their terminators. A carriage return
  directly followed by a line feed is one terminator; a terminator at the very end of
  the text does not open a further, empty line.
\<close>

function splitlines :: "string \<Rightarrow> string list" where
  "splitlines [] = []"
| "splitlines (c # cs) =
     (if is_linebreak c then
        [] # splitlines (if c = CR \<and> take 1 cs = [LF] then tl cs else cs)
      else (case splitlines cs of
              [] \<Rightarrow> [[c]]
            | l # ls \<Rightarrow> (c # l) # ls))"
  by pat_completeness auto
termination
  by (relation "measure length") auto

text \<open>\<open>sep.join(xs)\<close>.\<close>

fun str_join :: "string \<Rightarrow> string list \<Rightarrow> string" where
  "str_join sep [] = []"
| "str_join sep [x] = x"
| "str_join sep (x # y # ys) = x @ sep @ str_join sep (y # ys)"

text \<open>
  \<open>s.split(sep)\<close> for a separator of one character: the pieces between the separators,
  empty pieces included; the empty text gives one empty piece.
\<close>

fun str_split :: "char \<Rightarrow> string \<Rightarrow> string list" where
  "str_split sep [] = [[]]"
| "str_split sep (c # cs) =
     (if c = sep then [] # str_split sep cs
      else (case str_split sep cs of
              [] \<Rightarrow> [[c]]
            | l # ls \<Rightarrow> (c # l) # ls))"

text \<open>
  \<open>s.find(sub)\<close>: the lowest index at which \<open>sub\<close> occurs in \<open>s\<close>, and \<open>-1\<close> when it
  occurs nowhere. \<open>find_from\<close> carries the index of the position it looks at.
\<close>

fun find_from :: "nat \<Rightarrow> string \<Rightarrow> string \<Rightarrow> int" where
  "find_from i [] sub = (if sub = [] then int i else - 1)"
| "find_from i (c # cs) sub =
     (if startswith (c # cs) sub then int i else find_from (Suc i) cs sub)"

definition str_find :: "string \<Rightarrow> string \<Rightarrow> int" where
  "str_find s sub = find_from 0 s sub"

text \<open>
  The slice \<open>s[i:]\<close>: a negative index counts from the end of the text, and an index
  outside the text is clipped.
\<close>

definition slice_from :: "string \<Rightarrow> int \<Rightarrow> string" where
  "slice_from s i = (if i < 0 then drop (nat (int (length s) + i)) s else drop (nat i) s)"

section \<open>The module object of the host\<close>

record module_obj =
  getFullName :: string

section \<open>GeventPlugin\<close>

text \<open>
  The local variable \<open>full_name\<close> of \<open>GeventPlugin.onModuleEncounter\<close>. The package is
  \<open>None\<close> or a text.
\<close>

definition GeventPlugin_full_name :: "string \<Rightarrow> string option \<Rightarrow> string" where
  "GeventPlugin_full_name module_name module_package =
     (case module_package of
        None \<Rightarrow> module_name
      | Some pkg \<Rightarrow>
          if pkg \<noteq> [] then
            (if startswith module_name pkg then
               (let t = drop (length pkg) module_name in
                if startswith t ''.'' then module_name
                else pkg @ ''.'' @ module_name)
             else if endswith pkg module_name then pkg
             else pkg @ ''.'' @ module_name)
          else module_name)"

definition GeventPlugin_onModuleEncounter ::
  "string \<Rightarrow> string \<Rightarrow> string option \<Rightarrow> string \<Rightarrow> (bool \<times> string) option" where
  "GeventPlugin_onModuleEncounter module_filename module_name module_package module_kind =
     (let full_name = GeventPlugin_full_name module_name module_package in
      if startswith full_name ''gevent'' then Some (True, ''everything from gevent'')
      else None)"

text \<open>
  \<open>GeventPlugin.onModuleSourceCode\<close> returns the source text; the second component is
  the list of messages it hands to \<open>logging.info\<close>.
\<close>

definition GeventPlugin_onModuleSourceCode :: "string \<Rightarrow> string \<Rightarrow> string \<times> string list" where
  "GeventPlugin_onModuleSourceCode module_name source_code =
     (if module_name \<noteq> ''gevent._config'' then (source_code, [])
      else
        (let source_lines = splitlines source_code;
             source_lines = source_lines @ [''config.track_greenlet_tree = False'']
         in (str_join [LF] source_lines,
             ['' 'gevent' plugin: Greenlet tree tracking switched off''])))"

text \<open>
  \<open>GeventPlugin.decideCompilation\<close>; \<open>getOS\<close> is the answer of the host's \<open>getOS()\<close>.
  A Python function that ends without \<open>return\<close> gives \<open>None\<close>.
\<close>

definition GeventPlugin_decideCompilation :: "string \<Rightarrow> string \<Rightarrow> 'ref \<Rightarrow> string option" where
  "GeventPlugin_decideCompilation getOS module_name source_ref =
     (if startswith module_name ''gevent'' \<and> getOS = ''Windows'' then Some ''bytecode''
      else None)"

text \<open>
  \<open>GeventPluginDetector.onModuleDiscovered\<close>: the result is the list of the messages given
  to the host's \<open>warnUnusedPlugin\<close>.
\<close>

definition GeventPluginDetector_onModuleDiscovered :: "module_obj \<Rightarrow> string list" where
  "GeventPluginDetector_onModuleDiscovered module =
     (let full_name = getFullName module in
      if startswith full_name ''gevent'' then [''gevent support.''] else [])"

section \<open>Exceptions, the host and the file system\<close>

datatype py_error = ImportError | AttributeError | OSError | FileExistsError | KeyError

text \<open>
  A module loader as \<open>pkgutil.find_loader\<close> returns it. Its \<open>get_filename\<close> raises, or
  returns \<open>None\<close> or a text; a loader without this method is one whose call raises
  \<open>AttributeError\<close>.
\<close>

record loader_obj =
  get_filename :: "string \<Rightarrow> py_error + string option"

text \<open>
  What the plugins ask of the Python installation and of the operating system:
  \<open>pkgutil.find_loader\<close> (it raises, or returns \<open>None\<close> or a loader), the functions
  \<open>join\<close> and \<open>split\<close> of \<open>os.path\<close> of the platform, \<open>os.listdir\<close>, \<open>str.lower\<close>, and
  which calls of \<open>os.mkdir\<close> and \<open>shutil.copy\<close> fail.
\<close>

record host =
  pkgutil_find_loader :: "string \<Rightarrow> py_error + loader_obj option"
  os_path_join :: "string \<Rightarrow> string \<Rightarrow> string"
  os_path_split :: "string \<Rightarrow> string \<times> string"
  os_listdir :: "string \<Rightarrow> py_error + string list"
  str_lower :: "string \<Rightarrow> string"
  mkdir_raises :: "string \<Rightarrow> bool"
  copy_raises :: "string \<Rightarrow> string \<Rightarrow> bool"

text \<open>\<open>os.path.dirname(p)\<close> is the head of \<open>os.path.split(p)\<close>.\<close>

definition os_path_dirname :: "host \<Rightarrow> string \<Rightarrow> string" where
  "os_path_dirname h p = fst (os_path_split h p)"

text \<open>
  The part of the world the plugin changes: the directories and the files that exist,
  and the effects in the order they happened (a message given to \<open>logging.info\<close>, a
  directory made, a file copied). A path is the text that names it.
\<close>

datatype event = Info string | Mkdir string | Copy string string

record world =
  dirs :: "string set"
  files :: "string set"
  events :: "event list"

definition os_path_exists :: "world \<Rightarrow> string \<Rightarrow> bool" where
  "os_path_exists w p = (p \<in> dirs w \<or> p \<in> files w)"

definition os_path_isdir :: "world \<Rightarrow> string \<Rightarrow> bool" where
  "os_path_isdir w p = (p \<in> dirs w)"

definition info :: "string \<Rightarrow> world \<Rightarrow> world" where
  "info msg w = w\<lparr>events := events w @ [Info msg]\<rparr>"

text \<open>
  \<open>os.mkdir(d)\<close> and \<open>shutil.copy(src, dst)\<close>: a call that fails raises and leaves the
  world as it was; a call that succeeds is recorded. \<open>os.mkdir\<close> raises
  \<open>FileExistsError\<close> for a path that exists.
\<close>

definition os_mkdir :: "host \<Rightarrow> string \<Rightarrow> world \<Rightarrow> (py_error + unit) \<times> world" where
  "os_mkdir h d w =
     (if os_path_exists w d then (Inl FileExistsError, w)
      else if mkdir_raises h d then (Inl OSError, w)
      else (Inr (), w\<lparr>dirs := insert d (dirs w), events := events w @ [Mkdir d]\<rparr>))"

definition shutil_copy :: "host \<Rightarrow> string \<Rightarrow> string \<Rightarrow> world \<Rightarrow> (py_error + unit) \<times> world" where
  "shutil_copy h src dst w =
     (if copy_raises h src dst then (Inl OSError, w)
      else (Inr (), w\<lparr>files := insert dst (files w), events := events w @ [Copy src dst]\<rparr>))"

text \<open>
  \<open>os.makedirs(name)\<close> of the standard library: split the name, and once more when it
  ends in a separator; when the head does not exist, make it first, with all the
  directories it needs, where \<open>FileExistsError\<close> from that call is passed over; a name
  whose tail is the current directory \<open>.\<close> is then there and nothing more is made;
  otherwise the last directory is made by \<open>os.mkdir\<close>. The head of a split with a tail
  is shorter than the path, and the model makes the head first only then.
\<close>

definition makedirs_split :: "host \<Rightarrow> string \<Rightarrow> string \<times> string" where
  "makedirs_split h name =
     (let head = fst (os_path_split h name); tail = snd (os_path_split h name) in
      if tail = [] then os_path_split h head else (head, tail))"

definition makedirs_last :: "host \<Rightarrow> string \<Rightarrow> world \<Rightarrow> (py_error + unit) \<times> world" where
  "makedirs_last h name w =
     (if snd (makedirs_split h name) = ''.''
      then (Inr (), w\<lparr>dirs := insert name (dirs w)\<rparr>)
      else os_mkdir h name w)"

function os_makedirs :: "host \<Rightarrow> string \<Rightarrow> world \<Rightarrow> (py_error + unit) \<times> world" where
  "os_makedirs h name w =
     (if fst (makedirs_split h name) \<noteq> [] \<and> snd (makedirs_split h name) \<noteq> [] \<and>
         length (fst (makedirs_split h name)) < length name \<and>
         \<not> os_path_exists w (fst (makedirs_split h name))
      then (case os_makedirs h (fst (makedirs_split h name)) w of
              (Inl e, w1) \<Rightarrow>
                if e = FileExistsError then makedirs_last h name w1 else (Inl e, w1)
            | (Inr u, w1) \<Rightarrow> makedirs_last h name w1)
      else os_mkdir h name w)"
  by pat_completeness auto
termination
  by (relation "measure (\<lambda>(h, name, w). length name)") auto

declare os_makedirs.simps [simp del]






text \<open>The decimal digits of a number, as \<open>%i\<close> prints them.\<close>

function str_of_nat :: "nat \<Rightarrow> string" where
  "str_of_nat n =
     (if n < 10 then [''0123456789'' ! n]
      else str_of_nat (n div 10) @ [''0123456789'' ! (n mod 10)])"
  by pat_completeness auto
termination
  by (relation "measure id") auto

declare str_of_nat.simps [simp del]

section \<open>TorchPlugin\<close>

text \<open>
  \<open>get_module_file_attribute\<close>: \<open>loader.get_filename\<close> on the \<open>None\<close> that
  \<open>find_loader\<close> returns for an unknown module raises \<open>AttributeError\<close>;
  \<open>not attr\<close> holds of \<open>None\<close> and of the empty text.
\<close>

definition get_module_file_attribute :: "host \<Rightarrow> string \<Rightarrow> py_error + string" where
  "get_module_file_attribute h package =
     (case pkgutil_find_loader h package of
        Inl e \<Rightarrow> Inl e
      | Inr None \<Rightarrow> Inl AttributeError
      | Inr (Some loader) \<Rightarrow>
          (case get_filename loader package of
             Inl e \<Rightarrow> Inl e
           | Inr None \<Rightarrow> Inl ImportError
           | Inr (Some attr) \<Rightarrow> if attr = [] then Inl ImportError else Inr attr))"

text \<open>The \<open>for\<close> loop of \<open>get_torch_core_binaries\<close> over the directory entries.\<close>

fun get_torch_core_binaries_loop ::
  "host \<Rightarrow> string \<Rightarrow> string list \<Rightarrow> (string \<times> string) list \<Rightarrow> (string \<times> string) list" where
  "get_torch_core_binaries_loop h extra_dll [] binaries = binaries"
| "get_torch_core_binaries_loop h extra_dll (f # fs) binaries =
     (if \<not> endswith_any f [''.dll'', ''.so'', ''.dylib'', ''.h'']
      then get_torch_core_binaries_loop h extra_dll fs binaries
      else get_torch_core_binaries_loop h extra_dll fs
             (binaries @ [(os_path_join h extra_dll f, ''.'')]))"

definition get_torch_core_binaries :: "host \<Rightarrow> world \<Rightarrow> py_error + (string \<times> string) list" where
  "get_torch_core_binaries h w =
     (let binaries = [] in
      case get_module_file_attribute h ''torch'' of
        Inl e \<Rightarrow> Inl e
      | Inr attr \<Rightarrow>
          (let extra_dll = os_path_join h (os_path_dirname h attr) ''lib'' in
           if \<not> os_path_isdir w extra_dll then Inr binaries
           else (case os_listdir h extra_dll of
                   Inl e \<Rightarrow> Inl e
                 | Inr netto_bins \<Rightarrow>
                     Inr (get_torch_core_binaries_loop h extra_dll netto_bins binaries))))"

text \<open>The plugin object: the switch for the once-only copy of the files.\<close>

record plugin =
  files_copied :: bool

definition TorchPlugin_init :: plugin where
  "TorchPlugin_init = \<lparr>files_copied = False\<rparr>"

definition TorchPlugin_onModuleEncounter ::
  "string \<Rightarrow> string \<Rightarrow> string option \<Rightarrow> string \<Rightarrow> (bool \<times> string) option" where
  "TorchPlugin_onModuleEncounter module_filename module_name module_package module_kind =
     (if module_package = Some ''torchvision.transforms''
      then Some (True, ''Basic torchvision module'')
      else if module_package = Some ''PIL'' \<and>
              module_name \<in> set [''Image'', ''ImageColor'', ''ImageOps'', ''ImageEnhance'',
                                  ''ImageStat'', ''ImageFilter'']
      then Some (True, ''Required by torchvision'')
      else None)"



text \<open>
  The body of the \<open>for\<close> loop of \<open>TorchPlugin.considerExtraDlls\<close> for one entry \<open>f\<close> of
  \<open>binaries\<close>, and the loop; an exception ends the loop.
\<close>

definition considerExtraDlls_body ::
  "host \<Rightarrow> string \<Rightarrow> string \<times> string \<Rightarrow> world \<Rightarrow> (py_error + unit) \<times> world" where
  "considerExtraDlls_body h dist_dir f w =
     (let bin_file = str_lower h (fst f);
          idx = str_find bin_file ''torch'';
          back_end = slice_from bin_file idx;
          tar_file = os_path_join h dist_dir back_end
      in case (if \<not> os_path_exists w (os_path_dirname h tar_file)
               then os_makedirs h (os_path_dirname h tar_file) w
               else (Inr (), w)) of
           (Inl e, w1) \<Rightarrow> (Inl e, w1)
         | (Inr u, w1) \<Rightarrow> shutil_copy h bin_file tar_file w1)"

fun considerExtraDlls_loop ::
  "host \<Rightarrow> string \<Rightarrow> (string \<times> string) list \<Rightarrow> world \<Rightarrow> (py_error + unit) \<times> world" where
  "considerExtraDlls_loop h dist_dir [] w = (Inr (), w)"
| "considerExtraDlls_loop h dist_dir (f # fs) w =
     (case considerExtraDlls_body h dist_dir f w of
        (Inl e, w1) \<Rightarrow> (Inl e, w1)
      | (Inr u, w1) \<Rightarrow> considerExtraDlls_loop h dist_dir fs w1)"

text \<open>
  \<open>TorchPlugin.considerExtraDlls\<close>: the result is the empty tuple or the exception, with
  the plugin object and the world as the call leaves them.
\<close>

definition TorchPlugin_considerExtraDlls ::
  "host \<Rightarrow> string \<Rightarrow> module_obj \<Rightarrow> plugin \<times> world \<Rightarrow> (py_error + unit) \<times> plugin \<times> world" where
  "TorchPlugin_considerExtraDlls h dist_dir module s =
     (let self = fst s; w = snd s in
      if files_copied self = True then (Inr (), self, w)
      else if getFullName module = ''torch'' then
        (let self = self\<lparr>files_copied := True\<rparr> in
         case get_torch_core_binaries h w of
           Inl e \<Rightarrow> (Inl e, self, w)
         | Inr binaries \<Rightarrow>
             (let bin_total = length binaries in
              if bin_total = 0 then (Inr (), self, w)
              else
                (let w = info [] w;
                     w = info '' Copying files from 'torch/lib':'' w
                 in case considerExtraDlls_loop h dist_dir binaries w of
                      (Inl e, w) \<Rightarrow> (Inl e, self, w)
                    | (Inr u, w) \<Rightarrow>
                        (let msg = '' Copied '' @ str_of_nat bin_total @ '' '' @
                                   (if bin_total < 2 then ''binary'' else ''binaries'') @ ''.''
                         in (Inr (), self, info msg w)))))
      else (Inr (), self, w))"

text \<open>
  The calls of \<open>considerExtraDlls\<close> that the host makes on one plugin object, one after
  the other, with the result of each call.
\<close>

fun considerExtraDlls_calls ::
  "host \<Rightarrow> (string \<times> module_obj) list \<Rightarrow> plugin \<times> world \<Rightarrow>
   (py_error + unit) list \<times> plugin \<times> world" where
  "considerExtraDlls_calls h [] s = ([], s)"
| "considerExtraDlls_calls h (c # cs) s =
     (case TorchPlugin_considerExtraDlls h (fst c) (snd c) s of
        (r, s1) \<Rightarrow> (case considerExtraDlls_calls h cs s1 of (rs, s2) \<Rightarrow> (r # rs, s2)))"

text \<open>
  \<open>TorchPluginDetector.onModuleDiscovered\<close>: the result is the list of the messages given
  to the host's \<open>warnUnusedPlugin\<close>.
\<close>

definition TorchPluginDetector_onModuleDiscovered :: "module_obj \<Rightarrow> string list" where
  "TorchPluginDetector_onModuleDiscovered module =
     (let full_name = str_split (CHR ''.'') (getFullName module) in
      if ''torch'' \<in> set full_name then [''torch support.''] else [])"

section \<open>The pybench test SimpleDictManipulation\<close>

text \<open>
  The local variables \<open>d\<close> and \<open>x\<close> of \<open>SimpleDictManipulation.test\<close>. The dictionary is a
  list of pairs with distinct keys, in the order of insertion.
\<close>

type_synonym dict = "(int \<times> int) list"

record locals =
  var_d :: dict
  var_x :: "int option"

text \<open>
  The four kinds of statement in the loop body: \<open>d[k] = v\<close>, \<open>x = d[k]\<close>, \<open>has_key(k)\<close>
  (\<open>has_key\<close> is the method of \<open>d\<close>, its answer is dropped) and \<open>del d[k]\<close>. Reading or
  deleting a key that is not in the dictionary raises \<open>KeyError\<close>.
\<close>

datatype stmt = SetItem int int | GetItem int | HasKey int | DelItem int

fun exec :: "stmt \<Rightarrow> locals \<Rightarrow> py_error + locals" where
  "exec (SetItem k v) s = Inr (s\<lparr>var_d := AList.update k v (var_d s)\<rparr>)"
| "exec (GetItem k) s =
     (case map_of (var_d s) k of
        None \<Rightarrow> Inl KeyError
      | Some v \<Rightarrow> Inr (s\<lparr>var_x := Some v\<rparr>))"
| "exec (HasKey k) s = Inr s"
| "exec (DelItem k) s =
     (case map_of (var_d s) k of
        None \<Rightarrow> Inl KeyError
      | Some v \<Rightarrow> Inr (s\<lparr>var_d := AList.delete k (var_d s)\<rparr>))"

fun exec_all :: "stmt list \<Rightarrow> locals \<Rightarrow> py_error + locals" where
  "exec_all [] s = Inr s"
| "exec_all (c # cs) s = (case exec c s of Inl e \<Rightarrow> Inl e | Inr s1 \<Rightarrow> exec_all cs s1)"

text \<open>
  The loop body is the same group of twenty-four statements five times: six
  assignments, six lookups, six calls of \<open>has_key\<close>, six deletions.
\<close>

definition assignments :: "stmt list" where
  "assignments = [SetItem 0 3, SetItem 1 4, SetItem 2 5, SetItem 3 3, SetItem 4 4, SetItem 5 5]"

definition lookups :: "stmt list" where
  "lookups = [GetItem 0, GetItem 1, GetItem 2, GetItem 3, GetItem 4, GetItem 5]"

definition has_keys :: "stmt list" where
  "has_keys = [HasKey 0, HasKey 2, HasKey 4, HasKey 6, HasKey 8, HasKey 10]"

definition deletions :: "stmt list" where
  "deletions = [DelItem 0, DelItem 1, DelItem 2, DelItem 3, DelItem 4, DelItem 5]"

definition stmt_group :: "stmt list" where
  "stmt_group = assignments @ lookups @ has_keys @ deletions"

definition loop_body :: "stmt list" where
  "loop_body = stmt_group @ stmt_group @ stmt_group @ stmt_group @ stmt_group"

text \<open>
  \<open>for i in xrange(self.rounds)\<close>: the body, \<open>rounds\<close> times, unless an exception ends
  the test. \<open>loop_starts\<close> lists the dictionary as it is at the start of each
  iteration that is reached.
\<close>

fun for_rounds :: "nat \<Rightarrow> locals \<Rightarrow> py_error + locals" where
  "for_rounds 0 s = Inr s"
| "for_rounds (Suc n) s =
     (case exec_all loop_body s of Inl e \<Rightarrow> Inl e | Inr s1 \<Rightarrow> for_rounds n s1)"

fun loop_starts :: "nat \<Rightarrow> locals \<Rightarrow> dict list" where
  "loop_starts 0 s = []"
| "loop_starts (Suc n) s =
     var_d s # (case exec_all loop_body s of Inl e \<Rightarrow> [] | Inr s1 \<Rightarrow> loop_starts n s1)"

definition SimpleDictManipulation_rounds :: nat where
  "SimpleDictManipulation_rounds = 100000"

definition SimpleDictManipulation_test :: "nat \<Rightarrow> py_error + locals" where
  "SimpleDictManipulation_test rounds = for_rounds rounds \<lparr>var_d = [], var_x = None\<rparr>"

section \<open>The full name in the words of the specification\<close>

text \<open>
  The qualified full name as the specification describes it for
  \<open>GeventPlugin.onModuleEncounter\<close>: the bare module name when there is no package, the
  module name when it already begins with the package followed by a dot, the package
  when the package ends with the module name, and package, dot and module name
  otherwise. This definition follows the specification, not the source; the source's
  is \<open>GeventPlugin_full_name\<close>.
\<close>

definition spec_full_name :: "string \<Rightarrow> string option \<Rightarrow> string" where
  "spec_full_name module_name module_package =
     (case module_package of
        None \<Rightarrow> module_name
      | Some pkg \<Rightarrow>
          if pkg = [] then module_name
          else if startswith module_name (pkg @ ''.'') then module_name
          else if endswith pkg module_name then pkg
          else pkg @ ''.'' @ module_name)"

section \<open>A host to run the plugin on\<close>

text \<open>
  A POSIX installation for the examples: \<open>posixpath.join\<close> and \<open>posixpath.split\<close>,
  lower case for the letters A to Z, the package \<open>torch\<close> installed under
  \<open>/opt/Py/Torch\<close> with three entries in its \<open>lib\<close> folder, and no other package.
\<close>

definition posix_join :: "string \<Rightarrow> string \<Rightarrow> string" where
  "posix_join a b =
     (if startswith b ''/'' then b
      else if a = [] \<or> endswith a ''/'' then a @ b
      else a @ ''/'' @ b)"

definition posix_split :: "string \<Rightarrow> string \<times> string" where
  "posix_split p =
     (let head = rev (dropWhile (\<lambda>c. c \<noteq> CHR ''/'') (rev p));
          tail = rev (takeWhile (\<lambda>c. c \<noteq> CHR ''/'') (rev p))
      in (if head \<noteq> [] \<and> \<not> list_all (\<lambda>c. c = CHR ''/'') head
          then rev (dropWhile (\<lambda>c. c = CHR ''/'') (rev head))
          else head, tail))"

definition ascii_lower :: "string \<Rightarrow> string" where
  "ascii_lower s =
     map (\<lambda>c. case map_of (zip ''ABCDEFGHIJKLMNOPQRSTUVWXYZ'' ''abcdefghijklmnopqrstuvwxyz'') c of
                None \<Rightarrow> c
              | Some l \<Rightarrow> l) s"

definition example_loader :: loader_obj where
  "example_loader = \<lparr>get_filename = (\<lambda>p. Inr (Some ''/opt/Py/Torch/__init__.py''))\<rparr>"

definition example_host :: host where
  "example_host =
     \<lparr>pkgutil_find_loader =
        (\<lambda>p. if p = ''torch'' then Inr (Some example_loader) else Inr None),
      os_path_join = posix_join,
      os_path_split = posix_split,
      os_listdir =
        (\<lambda>d. if d = ''/opt/Py/Torch/lib'' then Inr [''C10.dll'', ''notes.txt'', ''torch.h'']
              else Inl OSError),
      str_lower = ascii_lower,
      mkdir_raises = (\<lambda>d. False),
      copy_raises = (\<lambda>src dst. False)\<rparr>"

definition example_world :: world where
  "example_world =
     \<lparr>dirs = {''/'', ''/opt'', ''/opt/Py'', ''/opt/Py/Torch'', ''/opt/Py/Torch/lib'', ''out.dist''},
      files = {}, events = []\<rparr>"

section \<open>Properties\<close>

subsection \<open>Facts about the string methods\<close>

lemma startswith_append:
  "startswith s (p @ q) = (startswith s p \<and> startswith (drop (length p) s) q)"
proof
  assume "startswith s (p @ q)"
  then have e: "take (length p + length q) s = p @ q" by (simp add: startswith_def)
  have "take (length p) s = take (length p) (take (length p + length q) s)" by simp
  also have "\<dots> = p" by (simp only: e) simp
  finally have 1: "take (length p) s = p" .
  have "take (length q) (drop (length p) s) = drop (length p) (take (length p + length q) s)"
    by (simp add: drop_take)
  also have "\<dots> = q" by (simp only: e) simp
  finally show "startswith s p \<and> startswith (drop (length p) s) q"
    using 1 by (simp add: startswith_def)
next
  assume "startswith s p \<and> startswith (drop (length p) s) q"
  then have "take (length p) s = p" "take (length q) (drop (length p) s) = q"
    by (simp_all add: startswith_def)
  then have "take (length p + length q) s = p @ q" by (simp add: take_add)
  then show "startswith s (p @ q)" by (simp add: startswith_def)
qed

lemma endswith_startswith_eq: "startswith n p \<Longrightarrow> endswith p n \<Longrightarrow> n = p"
  unfolding startswith_def endswith_def
  by (metis take_all_iff)

lemma str_split_sep: "sep \<notin> set l \<Longrightarrow> str_split sep (l @ sep # r) = l # str_split sep r"
  by (induction l) auto

lemma str_split_plain: "sep \<notin> set l \<Longrightarrow> str_split sep l = [l]"
  by (induction l) auto

lemma str_split_nonempty: "str_split sep s \<noteq> []"
  by (induction s) (auto split: list.splits)

lemma str_join_split: "str_join [sep] (str_split sep s) = s"
proof (induction s)
  case Nil
  show ?case by simp
next
  case (Cons c s)
  obtain l ls where "str_split sep s = l # ls"
    using str_split_nonempty by (cases "str_split sep s") auto
  with Cons show ?case by (cases ls) auto
qed

lemma str_split_pieces: "l \<in> set (str_split sep s) \<Longrightarrow> sep \<notin> set l"
  by (induction s arbitrary: l) (auto split: list.splits if_splits)

subsection \<open>GeventPlugin.onModuleEncounter\<close>

text \<open>
  A dot after the first part of a dotted name cannot belong to the prefix \<open>gevent\<close>: the
  dotted name starts with \<open>gevent\<close> exactly when its first part does.
\<close>

lemma gevent_dotted:
  "startswith (p @ ''.'' @ q) ''gevent'' = startswith p ''gevent''"
proof (cases "length p < 6")
  case True
  have len: "length ''gevent'' = 6" by simp
  have "\<not> startswith (p @ ''.'' @ q) ''gevent''"
  proof
    assume "startswith (p @ ''.'' @ q) ''gevent''"
    then have e: "take 6 (p @ ''.'' @ q) = ''gevent''"
      unfolding startswith_def len .
    from True have "take 6 (p @ ''.'' @ q) = p @ CHR ''.'' # take (5 - length p) q"
      by (simp add: take_Cons')
    then have "CHR ''.'' \<in> set (take 6 (p @ ''.'' @ q))" by simp
    with e have "CHR ''.'' \<in> set ''gevent''" by (simp only:)
    then show False by simp
  qed
  moreover have "\<not> startswith p ''gevent''"
  proof
    assume "startswith p ''gevent''"
    then have "take 6 p = ''gevent''" unfolding startswith_def len .
    then have "length (take 6 p) = 6" by (simp only: len)
    with True show False by simp
  qed
  ultimately show ?thesis by (simp only:)
next
  case False
  then show ?thesis by (simp add: startswith_def)
qed

text \<open>
  The source's full name is the specification's, except when the module name is the
  package itself: the source then takes package, dot and module name.
\<close>

lemma GeventPlugin_full_name_spec:
  "GeventPlugin_full_name name pkg =
     (if pkg = Some name \<and> name \<noteq> [] then name @ ''.'' @ name else spec_full_name name pkg)"
proof (cases pkg)
  case None
  then show ?thesis by (simp add: GeventPlugin_full_name_def spec_full_name_def)
next
  case (Some p)
  show ?thesis
  proof (cases "startswith name p")
    case sw: True
    show ?thesis
    proof (cases "startswith (drop (length p) name) ''.''")
      case True
      with sw have "name \<noteq> p" by (auto simp: startswith_def)
      with Some sw True show ?thesis
        by (simp add: GeventPlugin_full_name_def spec_full_name_def startswith_append)
    next
      case nd: False
      show ?thesis
      proof (cases "endswith p name")
        case True
        with sw have "name = p" using endswith_startswith_eq by blast
        with Some nd True show ?thesis
          by (simp add: GeventPlugin_full_name_def spec_full_name_def startswith_append
              startswith_def)
      next
        case False
        then have "name \<noteq> p" by (auto simp: endswith_def)
        with Some sw nd False show ?thesis
          by (simp add: GeventPlugin_full_name_def spec_full_name_def startswith_append)
      qed
    qed
  next
    case False
    then have "name \<noteq> p" by (auto simp: startswith_def)
    with Some False show ?thesis
      by (simp add: GeventPlugin_full_name_def spec_full_name_def startswith_append)
  qed
qed

text \<open>
  Claim C6. For every module name, package and kind, \<open>GeventPlugin.onModuleEncounter\<close>
  returns the pair \<open>(True, reason)\<close> if and only if the qualified full name, derived as
  the specification says, starts with \<open>gevent\<close>, and returns \<open>None\<close> otherwise.
\<close>

theorem GeventPlugin_onModuleEncounter_gevent_prefix:
  "GeventPlugin_onModuleEncounter module_filename module_name module_package module_kind =
     (if startswith (spec_full_name module_name module_package) ''gevent''
      then Some (True, ''everything from gevent'') else None)"
proof (cases "module_package = Some module_name \<and> module_name \<noteq> []")
  case True
  then have s: "spec_full_name module_name module_package = module_name"
    by (simp add: spec_full_name_def endswith_def startswith_def)
  from True have c:
    "GeventPlugin_full_name module_name module_package = module_name @ ''.'' @ module_name"
    by (simp add: GeventPlugin_full_name_spec)
  show ?thesis
    unfolding GeventPlugin_onModuleEncounter_def Let_def c s
    by (simp only: gevent_dotted)
next
  case False
  then have c:
    "GeventPlugin_full_name module_name module_package = spec_full_name module_name module_package"
    by (auto simp add: GeventPlugin_full_name_spec)
  show ?thesis
    unfolding GeventPlugin_onModuleEncounter_def Let_def c ..
qed

theorem GeventPlugin_onModuleEncounter_gevent_prefix_witness:
  "GeventPlugin_onModuleEncounter ''hub.py'' ''hub'' (Some ''gevent'') ''py'' =
     Some (True, ''everything from gevent'') \<and>
   GeventPlugin_onModuleEncounter ''g.py'' ''gevent'' (Some ''gevent'') ''py'' =
     Some (True, ''everything from gevent'') \<and>
   GeventPlugin_onModuleEncounter ''x.py'' ''gevent'' (Some ''my.gevent'') ''py'' = None \<and>
   GeventPlugin_onModuleEncounter ''os.py'' ''os'' None ''py'' = None"
  using GeventPlugin_onModuleEncounter_gevent_prefix [of "''hub.py''" "''hub''" "Some ''gevent''" "''py''"]
    GeventPlugin_onModuleEncounter_gevent_prefix [of "''g.py''" "''gevent''" "Some ''gevent''" "''py''"]
    GeventPlugin_onModuleEncounter_gevent_prefix [of "''x.py''" "''gevent''" "Some ''my.gevent''" "''py''"]
    GeventPlugin_onModuleEncounter_gevent_prefix [of "''os.py''" "''os''" None "''py''"]
  by (simp add: spec_full_name_def startswith_def endswith_def)

subsection \<open>GeventPlugin.decideCompilation\<close>

text \<open>
  Claim C7. For every module name, \<open>GeventPlugin.decideCompilation\<close> returns
  \<open>bytecode\<close> if and only if the module name starts with \<open>gevent\<close> and the operating
  system is Windows, and returns \<open>None\<close> in every other case, so also for every gevent
  module on an operating system that is not Windows.
\<close>

theorem GeventPlugin_decideCompilation_windows_only:
  "(GeventPlugin_decideCompilation getOS module_name source_ref = Some ''bytecode'') =
     (startswith module_name ''gevent'' \<and> getOS = ''Windows'') \<and>
   (GeventPlugin_decideCompilation getOS module_name source_ref = None) =
     (\<not> (startswith module_name ''gevent'' \<and> getOS = ''Windows'')) \<and>
   (startswith module_name ''gevent'' \<and> getOS \<noteq> ''Windows'' \<longrightarrow>
      GeventPlugin_decideCompilation getOS module_name source_ref = None)"
  by (simp add: GeventPlugin_decideCompilation_def)

theorem GeventPlugin_decideCompilation_windows_only_witness:
  "startswith ''gevent.hub'' ''gevent'' \<and> ''Linux'' \<noteq> ''Windows'' \<and>
   GeventPlugin_decideCompilation ''Linux'' ''gevent.hub'' () = None \<and>
   GeventPlugin_decideCompilation ''Windows'' ''gevent.hub'' () = Some ''bytecode'' \<and>
   GeventPlugin_decideCompilation ''Windows'' ''os.path'' () = None"
  using GeventPlugin_decideCompilation_windows_only [of "''Linux''" "''gevent.hub''" "()"]
    GeventPlugin_decideCompilation_windows_only [of "''Windows''" "''gevent.hub''" "()"]
    GeventPlugin_decideCompilation_windows_only [of "''Windows''" "''os.path''" "()"]
  by (simp add: startswith_def)

subsection \<open>TorchPlugin.onModuleEncounter\<close>

text \<open>
  Claim C8. For every encountered module, \<open>TorchPlugin.onModuleEncounter\<close> returns
  \<open>(True, reason)\<close> if and only if the module package is \<open>torchvision.transforms\<close>, or
  the module package is \<open>PIL\<close> and the module name is one of \<open>Image\<close>, \<open>ImageColor\<close>,
  \<open>ImageOps\<close>, \<open>ImageEnhance\<close>, \<open>ImageStat\<close>, \<open>ImageFilter\<close>; for every other module it
  returns \<open>None\<close>.
\<close>

theorem TorchPlugin_onModuleEncounter_subpackages:
  "((\<exists>reason. TorchPlugin_onModuleEncounter module_filename module_name module_package
                 module_kind = Some (True, reason)) =
      (module_package = Some ''torchvision.transforms'' \<or>
       module_package = Some ''PIL'' \<and>
       module_name \<in> {''Image'', ''ImageColor'', ''ImageOps'', ''ImageEnhance'', ''ImageStat'',
                       ''ImageFilter''})) \<and>
   ((TorchPlugin_onModuleEncounter module_filename module_name module_package module_kind = None) =
      (\<not> (module_package = Some ''torchvision.transforms'' \<or>
           module_package = Some ''PIL'' \<and>
           module_name \<in> {''Image'', ''ImageColor'', ''ImageOps'', ''ImageEnhance'',
                           ''ImageStat'', ''ImageFilter''})))"
  unfolding TorchPlugin_onModuleEncounter_def by (simp only: set_simps) auto

theorem TorchPlugin_onModuleEncounter_subpackages_witness:
  "(\<exists>reason. TorchPlugin_onModuleEncounter ''Image.py'' ''Image'' (Some ''PIL'') ''py'' =
               Some (True, reason)) \<and>
   (\<exists>reason. TorchPlugin_onModuleEncounter ''f.py'' ''functional''
               (Some ''torchvision.transforms'') ''py'' = Some (True, reason)) \<and>
   TorchPlugin_onModuleEncounter ''ImageDraw.py'' ''ImageDraw'' (Some ''PIL'') ''py'' = None \<and>
   TorchPlugin_onModuleEncounter ''Image.py'' ''Image'' None ''py'' = None"
  using TorchPlugin_onModuleEncounter_subpackages [of "''Image.py''" "''Image''" "Some ''PIL''" "''py''"]
    TorchPlugin_onModuleEncounter_subpackages [of "''f.py''" "''functional''" "Some ''torchvision.transforms''" "''py''"]
    TorchPlugin_onModuleEncounter_subpackages [of "''ImageDraw.py''" "''ImageDraw''" "Some ''PIL''" "''py''"]
    TorchPlugin_onModuleEncounter_subpackages [of "''Image.py''" "''Image''" None "''py''"]
  by simp

subsection \<open>More facts about the string methods\<close>

lemma str_split_append: "str_split sep (a @ sep # r) = str_split sep a @ str_split sep r"
proof (induction a)
  case Nil
  show ?case by simp
next
  case (Cons c a)
  obtain l ls where "str_split sep a = l # ls"
    using str_split_nonempty by (cases "str_split sep a") auto
  with Cons show ?case by simp
qed

lemma str_join_append:
  "xs \<noteq> [] \<Longrightarrow> ys \<noteq> [] \<Longrightarrow> str_join sep (xs @ ys) = str_join sep xs @ sep @ str_join sep ys"
proof (induction sep xs rule: str_join.induct)
  case (1 sep)
  then show ?case by simp
next
  case (2 sep x)
  then show ?case by (cases ys) simp_all
next
  case (3 sep x y ys)
  then show ?case by simp
qed

lemma str_join_Cons: "ys \<noteq> [] \<Longrightarrow> str_join sep (x # ys) = x @ sep @ str_join sep ys"
  by (cases ys) simp_all

lemma startswith_decomp: "startswith s p = (\<exists>b. s = p @ b)"
  unfolding startswith_def by (metis append_eq_conv_conj append_take_drop_id)

lemma endswith_decomp: "endswith s p = (\<exists>a. s = a @ p)"
proof
  assume "endswith s p"
  then have "s = take (length s - length p) s @ p"
    unfolding endswith_def by (metis append_take_drop_id)
  then show "\<exists>a. s = a @ p" ..
next
  assume "\<exists>a. s = a @ p"
  then show "endswith s p" by (auto simp: endswith_def)
qed


lemma find_from_cases:
  "(find_from i s sub = - 1 \<and> (\<forall>j\<le>length s. \<not> startswith (drop j s) sub)) \<or>
   (\<exists>k\<le>length s. find_from i s sub = int (i + k) \<and> startswith (drop k s) sub \<and>
      (\<forall>j<k. \<not> startswith (drop j s) sub))"
proof (induction s arbitrary: i)
  case Nil
  show ?case by (cases sub) (simp_all add: startswith_def)
next
  case (Cons c cs)
  show ?case
  proof (cases "startswith (c # cs) sub")
    case True
    then have "find_from i (c # cs) sub = int (i + 0) \<and> startswith (drop 0 (c # cs)) sub \<and>
      (\<forall>j<0. \<not> startswith (drop j (c # cs)) sub)" by simp
    then show ?thesis by blast
  next
    case False
    then have f: "find_from i (c # cs) sub = find_from (Suc i) cs sub" by simp
    from Cons [of "Suc i"] show ?thesis
    proof
      assume a: "find_from (Suc i) cs sub = - 1 \<and> (\<forall>j\<le>length cs. \<not> startswith (drop j cs) sub)"
      have "\<not> startswith (drop j (c # cs)) sub" if "j \<le> length (c # cs)" for j
        using that a False by (cases j) simp_all
      with a f show ?thesis by simp
    next
      assume "\<exists>k\<le>length cs. find_from (Suc i) cs sub = int (Suc i + k) \<and>
        startswith (drop k cs) sub \<and> (\<forall>j<k. \<not> startswith (drop j cs) sub)"
      then obtain k where k: "k \<le> length cs" "find_from (Suc i) cs sub = int (Suc i + k)"
        "startswith (drop k cs) sub" "\<forall>j<k. \<not> startswith (drop j cs) sub" by blast
      have n: "\<not> startswith (drop j (c # cs)) sub" if "j < Suc k" for j
        using that k(4) False by (cases j) simp_all
      have "Suc k \<le> length (c # cs) \<and> find_from i (c # cs) sub = int (i + Suc k) \<and>
        startswith (drop (Suc k) (c # cs)) sub \<and> (\<forall>j<Suc k. \<not> startswith (drop j (c # cs)) sub)"
        using k f n by simp
      then show ?thesis by blast
    qed
  qed
qed

lemma str_find_first:
  assumes "0 \<le> str_find s sub"
  shows "nat (str_find s sub) \<le> length s \<and> startswith (drop (nat (str_find s sub)) s) sub \<and>
    (\<forall>j<nat (str_find s sub). \<not> startswith (drop j s) sub)"
  using find_from_cases [of 0 s sub] assms unfolding str_find_def by auto

lemma str_find_contains: "(0 \<le> str_find s sub) = (\<exists>a b. s = a @ sub @ b)"
proof
  assume "0 \<le> str_find s sub"
  then have "startswith (drop (nat (str_find s sub)) s) sub" using str_find_first by blast
  then obtain b where "drop (nat (str_find s sub)) s = sub @ b" unfolding startswith_decomp ..
  then have "s = take (nat (str_find s sub)) s @ sub @ b" by (metis append_take_drop_id)
  then show "\<exists>a b. s = a @ sub @ b" by blast
next
  assume "\<exists>a b. s = a @ sub @ b"
  then obtain a b where s: "s = a @ sub @ b" by blast
  then have "startswith (drop (length a) s) sub" by (simp add: startswith_def)
  moreover have "length a \<le> length s" using s by simp
  ultimately show "0 \<le> str_find s sub"
    using find_from_cases [of 0 s sub] unfolding str_find_def by auto
qed

subsection \<open>The detectors\<close>

text \<open>
  \<open>torch\<close> is one of the pieces between the dots of a name exactly when the name is
  \<open>torch\<close>, begins with \<open>torch.\<close>, ends with \<open>.torch\<close> or contains \<open>.torch.\<close>.
\<close>

lemma torch_component:
  "(''torch'' \<in> set (str_split (CHR ''.'') s)) =
     (s = ''torch'' \<or> startswith s ''torch.'' \<or> endswith s ''.torch'' \<or>
      (\<exists>a b. s = a @ ''.torch.'' @ b))"
proof
  assume "''torch'' \<in> set (str_split (CHR ''.'') s)"
  then obtain xs ys where sp: "str_split (CHR ''.'') s = xs @ ''torch'' # ys"
    by (meson split_list)
  have s: "s = str_join ''.'' (xs @ ''torch'' # ys)"
    using str_join_split [of "CHR ''.''" s] sp by simp
  show "s = ''torch'' \<or> startswith s ''torch.'' \<or> endswith s ''.torch'' \<or>
      (\<exists>a b. s = a @ ''.torch.'' @ b)"
  proof (cases "xs = []")
    case x: True
    show ?thesis
    proof (cases "ys = []")
      case True
      with x s show ?thesis by simp
    next
      case False
      then have "str_join ''.'' (''torch'' # ys) = ''torch'' @ ''.'' @ str_join ''.'' ys"
        by (rule str_join_Cons)
      with x s have "s = ''torch.'' @ str_join ''.'' ys" by simp
      then have "startswith s ''torch.''" unfolding startswith_decomp by blast
      then show ?thesis by blast
    qed
  next
    case x: False
    show ?thesis
    proof (cases "ys = []")
      case True
      have "str_join ''.'' (xs @ [''torch'']) = str_join ''.'' xs @ ''.'' @ ''torch''"
        using x by (simp add: str_join_append)
      with True s have "s = str_join ''.'' xs @ ''.torch''" by simp
      then have "endswith s ''.torch''" unfolding endswith_decomp by blast
      then show ?thesis by blast
    next
      case False
      then have 1: "str_join ''.'' (''torch'' # ys) = ''torch'' @ ''.'' @ str_join ''.'' ys"
        by (rule str_join_Cons)
      have "str_join ''.'' (xs @ (''torch'' # ys)) = str_join ''.'' xs @ ''.'' @ str_join ''.'' (''torch'' # ys)"
        using x by (simp add: str_join_append)
      with 1 s have "s = str_join ''.'' xs @ ''.torch.'' @ str_join ''.'' ys" by simp
      then show ?thesis by blast
    qed
  qed
next
  assume a: "s = ''torch'' \<or> startswith s ''torch.'' \<or> endswith s ''.torch'' \<or>
      (\<exists>a b. s = a @ ''.torch.'' @ b)"
  have t: "str_split (CHR ''.'') ''torch'' = [''torch'']" by simp
  have tb: "str_split (CHR ''.'') (''torch'' @ CHR ''.'' # b) = ''torch'' # str_split (CHR ''.'') b" for b
    by (rule str_split_sep) simp
  from a consider "s = ''torch''" | b where "s = ''torch'' @ CHR ''.'' # b"
    | a where "s = a @ CHR ''.'' # ''torch''" | a b where "s = a @ CHR ''.'' # (''torch'' @ CHR ''.'' # b)"
    unfolding startswith_decomp endswith_decomp by auto
  then show "''torch'' \<in> set (str_split (CHR ''.'') s)"
  proof cases
    case 1
    then show ?thesis using t by simp
  next
    case 2
    then show ?thesis using tb by simp
  next
    case 3
    then show ?thesis using t by (simp only: str_split_append) simp
  next
    case 4
    then show ?thesis using tb by (simp only: str_split_append) simp
  qed
qed

text \<open>
  Claim C1, as stated, fails: \<open>torchvision\<close> starts with \<open>torch\<close> and
  \<open>TorchPluginDetector.onModuleDiscovered\<close> gives no warning for it, and
  \<open>caffe2.torch\<close> does not start with \<open>torch\<close> and is warned about. The gevent
  detector does warn for a name such as \<open>geventhttpclient\<close> that merely starts with
  its prefix.
\<close>

theorem TorchPluginDetector_not_prefix_counterexample:
  "startswith (getFullName \<lparr>getFullName = ''torchvision''\<rparr>) ''torch'' \<and>
   TorchPluginDetector_onModuleDiscovered \<lparr>getFullName = ''torchvision''\<rparr> = [] \<and>
   \<not> startswith (getFullName \<lparr>getFullName = ''caffe2.torch''\<rparr>) ''torch'' \<and>
   TorchPluginDetector_onModuleDiscovered \<lparr>getFullName = ''caffe2.torch''\<rparr> =
     [''torch support.''] \<and>
   GeventPluginDetector_onModuleDiscovered \<lparr>getFullName = ''geventhttpclient''\<rparr> =
     [''gevent support.'']"
  by (simp add: TorchPluginDetector_onModuleDiscovered_def
      GeventPluginDetector_onModuleDiscovered_def startswith_def)

text \<open>
  Claim C1, amended. \<open>TorchPluginDetector.onModuleDiscovered\<close> emits the unused-plugin
  warning exactly when \<open>torch\<close> is one of the dot-separated parts of the module's full
  name, that is, when the full name is \<open>torch\<close>, begins with \<open>torch.\<close>, ends with
  \<open>.torch\<close> or contains \<open>.torch.\<close>; \<open>GeventPluginDetector.onModuleDiscovered\<close> warns
  exactly when the full name starts with \<open>gevent\<close>.
\<close>

theorem TorchPluginDetector_warns_on_torch_component:
  "(TorchPluginDetector_onModuleDiscovered module = [''torch support.'']) =
     (getFullName module = ''torch'' \<or> startswith (getFullName module) ''torch.'' \<or>
      endswith (getFullName module) ''.torch'' \<or> 0 \<le> str_find (getFullName module) ''.torch.'') \<and>
   (TorchPluginDetector_onModuleDiscovered module = []) =
     (\<not> (getFullName module = ''torch'' \<or> startswith (getFullName module) ''torch.'' \<or>
          endswith (getFullName module) ''.torch'' \<or>
          0 \<le> str_find (getFullName module) ''.torch.'')) \<and>
   (GeventPluginDetector_onModuleDiscovered module = [''gevent support.'']) =
     startswith (getFullName module) ''gevent'' \<and>
   (GeventPluginDetector_onModuleDiscovered module = []) =
     (\<not> startswith (getFullName module) ''gevent'')"
  unfolding TorchPluginDetector_onModuleDiscovered_def
    GeventPluginDetector_onModuleDiscovered_def Let_def
    str_find_contains torch_component [symmetric]
  by simp

theorem TorchPluginDetector_warns_on_torch_component_witness:
  "TorchPluginDetector_onModuleDiscovered \<lparr>getFullName = ''torch.nn''\<rparr> = [''torch support.''] \<and>
   TorchPluginDetector_onModuleDiscovered \<lparr>getFullName = ''torchvision''\<rparr> = [] \<and>
   GeventPluginDetector_onModuleDiscovered \<lparr>getFullName = ''geventhttpclient''\<rparr> =
     [''gevent support.'']"
  using TorchPluginDetector_warns_on_torch_component [of "\<lparr>getFullName = ''torch.nn''\<rparr>"]
    TorchPluginDetector_warns_on_torch_component [of "\<lparr>getFullName = ''torchvision''\<rparr>"]
    TorchPluginDetector_warns_on_torch_component [of "\<lparr>getFullName = ''geventhttpclient''\<rparr>"]
  by (simp add: startswith_def endswith_def str_find_def)

subsection \<open>get_module_file_attribute\<close>

lemma get_module_file_attribute_no_loader:
  "pkgutil_find_loader h package = Inr None \<Longrightarrow> get_module_file_attribute h package = Inl AttributeError"
  by (simp add: get_module_file_attribute_def)

lemma get_module_file_attribute_no_filename:
  "pkgutil_find_loader h package = Inr (Some loader) \<Longrightarrow>
   get_filename loader package = Inr None \<or> get_filename loader package = Inr (Some []) \<Longrightarrow>
   get_module_file_attribute h package = Inl ImportError"
  by (auto simp add: get_module_file_attribute_def)

lemma get_module_file_attribute_filename:
  "pkgutil_find_loader h package = Inr (Some loader) \<Longrightarrow>
   get_filename loader package = Inr (Some attr) \<Longrightarrow> attr \<noteq> [] \<Longrightarrow>
   get_module_file_attribute h package = Inr attr"
  by (simp add: get_module_file_attribute_def)

lemma get_module_file_attribute_truthy:
  "get_module_file_attribute h package = Inr attr \<Longrightarrow> attr \<noteq> []"
  by (auto simp add: get_module_file_attribute_def split: sum.splits option.splits if_splits)

text \<open>
  Claim C4. A package for which no loader can be obtained should end in \<open>ImportError\<close>.
  On a host where \<open>find_loader\<close> returns \<open>None\<close> for \<open>numpy\<close>, the function raises
  \<open>AttributeError\<close> instead.
\<close>

theorem get_module_file_attribute_missing_loader:
  "pkgutil_find_loader example_host ''numpy'' = Inr None \<and>
   get_module_file_attribute example_host ''numpy'' = Inl AttributeError"
  by (simp add: get_module_file_attribute_def example_host_def)

subsection \<open>get_torch_core_binaries\<close>

lemma get_torch_core_binaries_loop_eq:
  "get_torch_core_binaries_loop h extra_dll fs binaries =
     binaries @ map (\<lambda>f. (os_path_join h extra_dll f, ''.''))
       (filter (\<lambda>f. endswith f ''.dll'' \<or> endswith f ''.so'' \<or> endswith f ''.dylib'' \<or> endswith f ''.h'') fs)"
  by (induction fs arbitrary: binaries) (simp_all add: endswith_any_def)

text \<open>
  Claim C9. With the torch package located, \<open>get_torch_core_binaries\<close> returns the
  empty list when the \<open>lib\<close> folder next to the package is not an existing directory,
  and otherwise one pair of joined path and \<open>.\<close> for each entry of that folder whose
  name ends in \<open>.dll\<close>, \<open>.so\<close>, \<open>.dylib\<close> or \<open>.h\<close>, in the order of the listing, and
  no pair for any other entry.
\<close>

theorem get_torch_core_binaries_selects_extensions:
  "get_module_file_attribute h ''torch'' = Inr attr \<Longrightarrow>
   (\<not> os_path_isdir w (os_path_join h (os_path_dirname h attr) ''lib'') \<longrightarrow>
      get_torch_core_binaries h w = Inr []) \<and>
   (os_path_isdir w (os_path_join h (os_path_dirname h attr) ''lib'') \<and>
    os_listdir h (os_path_join h (os_path_dirname h attr) ''lib'') = Inr netto_bins \<longrightarrow>
      get_torch_core_binaries h w =
        Inr (map (\<lambda>f. (os_path_join h (os_path_join h (os_path_dirname h attr) ''lib'') f, ''.''))
          (filter (\<lambda>f. endswith f ''.dll'' \<or> endswith f ''.so'' \<or> endswith f ''.dylib'' \<or> endswith f ''.h'') netto_bins)))"
  by (simp add: get_torch_core_binaries_def get_torch_core_binaries_loop_eq)

lemma example_host_torch_file: "get_module_file_attribute example_host ''torch'' = Inr ''/opt/Py/Torch/__init__.py''"
  by (simp add: get_module_file_attribute_def example_host_def example_loader_def)

lemma example_host_torch_lib: "os_path_join example_host (os_path_dirname example_host ''/opt/Py/Torch/__init__.py'') ''lib'' = ''/opt/Py/Torch/lib''"
  by (simp add: example_host_def os_path_dirname_def posix_join_def posix_split_def
      startswith_def endswith_def)

theorem get_torch_core_binaries_selects_extensions_witness:
  "get_module_file_attribute example_host ''torch'' = Inr ''/opt/Py/Torch/__init__.py'' \<and>
   os_path_isdir example_world ''/opt/Py/Torch/lib'' \<and>
   \<not> os_path_isdir (example_world\<lparr>dirs := {}\<rparr>) ''/opt/Py/Torch/lib'' \<and>
   get_torch_core_binaries example_host (example_world\<lparr>dirs := {}\<rparr>) = Inr [] \<and>
   get_torch_core_binaries example_host example_world =
     Inr [(''/opt/Py/Torch/lib/C10.dll'', ''.''), (''/opt/Py/Torch/lib/torch.h'', ''.'')]"
proof -
  have l: "os_listdir example_host ''/opt/Py/Torch/lib'' = Inr [''C10.dll'', ''notes.txt'', ''torch.h'']"
    by (simp add: example_host_def)
  have d: "os_path_isdir example_world ''/opt/Py/Torch/lib''"
    by (simp add: os_path_isdir_def example_world_def)
  have n: "\<not> os_path_isdir (example_world\<lparr>dirs := {}\<rparr>) ''/opt/Py/Torch/lib''"
    by (simp add: os_path_isdir_def)
  have j: "os_path_join example_host ''/opt/Py/Torch/lib'' ''C10.dll'' = ''/opt/Py/Torch/lib/C10.dll''"
     "os_path_join example_host ''/opt/Py/Torch/lib'' ''torch.h'' = ''/opt/Py/Torch/lib/torch.h''"
    by (simp_all add: example_host_def posix_join_def startswith_def endswith_def)
  show ?thesis
    using get_torch_core_binaries_selects_extensions [OF example_host_torch_file, of example_world "[''C10.dll'', ''notes.txt'', ''torch.h'']"]
      get_torch_core_binaries_selects_extensions [OF example_host_torch_file, of "example_world\<lparr>dirs := {}\<rparr>" "[]"] l d n example_host_torch_file
    by (simp add: example_host_torch_lib j endswith_def)
qed

subsection \<open>SimpleDictManipulation.test\<close>

lemma exec_assignments:
  "exec_all assignments \<lparr>var_d = [], var_x = x\<rparr> =
     Inr \<lparr>var_d = [(0, 3), (1, 4), (2, 5), (3, 3), (4, 4), (5, 5)], var_x = x\<rparr>"
  by (simp add: assignments_def)

lemma exec_lookups:
  "exec_all lookups \<lparr>var_d = [(0, 3), (1, 4), (2, 5), (3, 3), (4, 4), (5, 5)], var_x = x\<rparr> =
     Inr \<lparr>var_d = [(0, 3), (1, 4), (2, 5), (3, 3), (4, 4), (5, 5)], var_x = Some 5\<rparr>"
  by (simp add: lookups_def)

lemma exec_has_keys: "exec_all has_keys s = Inr s"
  by (simp add: has_keys_def)

lemma exec_deletions:
  "exec_all deletions \<lparr>var_d = [(0, 3), (1, 4), (2, 5), (3, 3), (4, 4), (5, 5)], var_x = x\<rparr> =
     Inr \<lparr>var_d = [], var_x = x\<rparr>"
  by (simp add: deletions_def)

lemma exec_all_append:
  "exec_all (cs @ ds) s = (case exec_all cs s of Inl e \<Rightarrow> Inl e | Inr s1 \<Rightarrow> exec_all ds s1)"
  by (induction cs arbitrary: s) (auto split: sum.splits)

lemma exec_group: "exec_all stmt_group \<lparr>var_d = [], var_x = x\<rparr> = Inr \<lparr>var_d = [], var_x = Some 5\<rparr>"
  unfolding stmt_group_def
  by (simp add: exec_all_append exec_assignments exec_lookups exec_has_keys exec_deletions)

lemma exec_loop_body:
  "exec_all loop_body \<lparr>var_d = [], var_x = x\<rparr> = Inr \<lparr>var_d = [], var_x = Some 5\<rparr>"
  unfolding loop_body_def
  by (simp add: exec_all_append exec_group)

lemma for_rounds_empty:
  "for_rounds n \<lparr>var_d = [], var_x = x\<rparr> = Inr \<lparr>var_d = [], var_x = (if n = 0 then x else Some 5)\<rparr>"
  by (induction n arbitrary: x) (simp_all add: exec_loop_body)

lemma loop_starts_empty: "loop_starts n \<lparr>var_d = [], var_x = x\<rparr> = replicate n []"
  by (induction n arbitrary: x) (simp_all add: exec_loop_body)

text \<open>
  Claim C10. In \<open>SimpleDictManipulation.test\<close> the dictionary is empty at the start of
  every iteration of the loop and again at its end: the six assignments of a group
  insert the keys 0 to 5, the six deletions remove exactly these, and no lookup and no
  deletion of the loop body fails.
\<close>

theorem SimpleDictManipulation_dict_empty_each_round:
  "loop_starts rounds \<lparr>var_d = [], var_x = None\<rparr> = replicate rounds [] \<and>
   exec_all loop_body \<lparr>var_d = [], var_x = x\<rparr> = Inr \<lparr>var_d = [], var_x = Some 5\<rparr> \<and>
   exec_all assignments \<lparr>var_d = [], var_x = x\<rparr> =
     Inr \<lparr>var_d = [(0, 3), (1, 4), (2, 5), (3, 3), (4, 4), (5, 5)], var_x = x\<rparr> \<and>
   exec_all deletions \<lparr>var_d = [(0, 3), (1, 4), (2, 5), (3, 3), (4, 4), (5, 5)], var_x = x\<rparr> =
     Inr \<lparr>var_d = [], var_x = x\<rparr> \<and>
   exec_all stmt_group \<lparr>var_d = [], var_x = x\<rparr> = Inr \<lparr>var_d = [], var_x = Some 5\<rparr> \<and>
   SimpleDictManipulation_test rounds =
     Inr \<lparr>var_d = [], var_x = (if rounds = 0 then None else Some 5)\<rparr>"
  by (simp only: loop_starts_empty exec_loop_body exec_assignments exec_deletions exec_group
      SimpleDictManipulation_test_def for_rounds_empty simp_thms)

theorem SimpleDictManipulation_dict_empty_each_round_witness:
  "SimpleDictManipulation_test SimpleDictManipulation_rounds = Inr \<lparr>var_d = [], var_x = Some 5\<rparr> \<and>
   loop_starts SimpleDictManipulation_rounds \<lparr>var_d = [], var_x = None\<rparr> =
     replicate SimpleDictManipulation_rounds []"
  using SimpleDictManipulation_dict_empty_each_round [of SimpleDictManipulation_rounds None]
  by (simp add: SimpleDictManipulation_rounds_def)


subsection \<open>GeventPlugin.onModuleSourceCode\<close>

lemma LF_linebreak: "is_linebreak LF"
  by (simp add: is_linebreak_def)

lemma splitlines_line_LF:
  "\<forall>c\<in>set l. \<not> is_linebreak c \<Longrightarrow> splitlines (l @ LF # rest) = l # splitlines rest"
  by (induction l) (simp_all add: LF_linebreak)

lemma splitlines_last_line:
  "\<forall>c\<in>set l. \<not> is_linebreak c \<Longrightarrow> l \<noteq> [] \<Longrightarrow> splitlines l = [l]"
proof (induction l)
  case Nil
  then show ?case by simp
next
  case (Cons c l)
  then show ?case by (cases "l = []") simp_all
qed

lemma splitlines_lines:
  "\<forall>l\<in>set (splitlines s). \<forall>c\<in>set l. \<not> is_linebreak c"
proof (induction s rule: splitlines.induct)
  case 1
  then show ?case by simp
next
  case (2 d ds)
  show ?case
  proof (cases "is_linebreak d")
    case True
    with 2(1) have "\<forall>l\<in>set (splitlines (if d = CR \<and> take 1 ds = [LF] then tl ds else ds)).
      \<forall>c\<in>set l. \<not> is_linebreak c" by blast
    with True show ?thesis by (simp del: splitlines.simps add: splitlines.simps(2) [of d ds])
  next
    case False
    with 2(2) have IH: "\<forall>l\<in>set (splitlines ds). \<forall>c\<in>set l. \<not> is_linebreak c" by blast
    show ?thesis
    proof (cases "splitlines ds")
      case Nil
      with False show ?thesis by simp
    next
      case (Cons l ls)
      with IH False show ?thesis by simp
    qed
  qed
qed

lemma splitlines_join:
  "\<forall>l\<in>set ls. \<forall>c\<in>set l. \<not> is_linebreak c \<Longrightarrow> x \<noteq> [] \<Longrightarrow> \<forall>c\<in>set x. \<not> is_linebreak c \<Longrightarrow>
   splitlines (str_join [LF] (ls @ [x])) = ls @ [x]"
proof (induction ls)
  case Nil
  then show ?case by (simp add: splitlines_last_line)
next
  case (Cons l ls)
  have "str_join [LF] ((l # ls) @ [x]) = l @ LF # str_join [LF] (ls @ [x])"
    by (cases ls) simp_all
  with Cons show ?case by (simp add: splitlines_line_LF)
qed

lemma splitlines_Nil_iff: "(splitlines s = []) = (s = [])"
  by (cases s) (simp_all split: list.splits)

lemma join_splitlines_LF:
  "\<forall>c\<in>set s. is_linebreak c \<longrightarrow> c = LF \<Longrightarrow>
   str_join [LF] (splitlines s @ [x]) = (if s = [] \<or> last s = LF then s else s @ [LF]) @ x"
proof (induction s)
  case Nil
  show ?case by simp
next
  case (Cons c s)
  from Cons.prems have p: "\<forall>c\<in>set s. is_linebreak c \<longrightarrow> c = LF" by simp
  have IH: "str_join [LF] (splitlines s @ [x]) = (if s = [] \<or> last s = LF then s else s @ [LF]) @ x"
    using Cons.IH [OF p] .
  show ?case
  proof (cases "is_linebreak c")
    case True
    with Cons.prems have c: "c = LF" by simp
    have sp: "splitlines (LF # s) = [] # splitlines s"
      by (simp add: LF_linebreak)
    have "str_join [LF] (([] # splitlines s) @ [x]) = LF # str_join [LF] (splitlines s @ [x])"
      by (cases "splitlines s") simp_all
    then have j: "str_join [LF] (splitlines (c # s) @ [x]) =
        LF # (if s = [] \<or> last s = LF then s else s @ [LF]) @ x"
      unfolding c sp IH .
    have g: "LF # (if s = [] \<or> last s = LF then s else s @ [LF]) @ x =
        (if c # s = [] \<or> last (c # s) = LF then c # s else (c # s) @ [LF]) @ x"
      unfolding c by (cases "s = []") simp_all
    show ?thesis unfolding j g ..
  next
    case nl: False
    then have cl: "c \<noteq> LF" using LF_linebreak by blast
    show ?thesis
    proof (cases "splitlines s")
      case Nil
      then have e: "s = []" by (simp add: splitlines_Nil_iff)
      have "splitlines [c] = [[c]]" using nl by simp
      then have "str_join [LF] (splitlines [c] @ [x]) = c # LF # x" by simp
      moreover have "(if [c] = [] \<or> last [c] = LF then [c] else [c] @ [LF]) @ x = c # LF # x"
        using cl by simp
      ultimately show ?thesis unfolding e by (simp only:)
    next
      case (Cons l ls)
      have s: "s \<noteq> []"
      proof
        assume "s = []"
        then have "splitlines s = []" by simp
        with Cons show False by (simp only: list.distinct)
      qed
      have sp: "splitlines (c # s) = (c # l) # ls"
        using nl Cons by (simp del: splitlines.simps add: splitlines.simps(2) [of c s])
      have "str_join [LF] (((c # l) # ls) @ [x]) = c # str_join [LF] ((l # ls) @ [x])"
        by (cases ls) simp_all
      then have j: "str_join [LF] (splitlines (c # s) @ [x]) =
          c # (if s = [] \<or> last s = LF then s else s @ [LF]) @ x"
        unfolding sp Cons [symmetric] IH .
      have g: "c # (if s = [] \<or> last s = LF then s else s @ [LF]) @ x =
          (if c # s = [] \<or> last (c # s) = LF then c # s else (c # s) @ [LF]) @ x"
        using s by simp
      show ?thesis unfolding j g ..
    qed
  qed
qed

lemma config_line_plain: "\<forall>c\<in>set ''config.track_greenlet_tree = False''. \<not> is_linebreak c"
  by (simp add: is_linebreak_def)

text \<open>
  Claim C2, as stated, fails for a source text with a terminator other than the line
  feed: of the text \<open>a\<close>, carriage return, line feed, \<open>b\<close> the result keeps the
  lines \<open>a\<close> and \<open>b\<close> but not the text, which is no longer the beginning of the
  result.
\<close>

theorem GeventPlugin_onModuleSourceCode_text_counterexample:
  "fst (GeventPlugin_onModuleSourceCode ''gevent._config'' [CHR ''a'', CR, LF, CHR ''b'']) =
     [CHR ''a'', LF, CHR ''b'', LF] @ ''config.track_greenlet_tree = False'' \<and>
   \<not> startswith (fst (GeventPlugin_onModuleSourceCode ''gevent._config'' [CHR ''a'', CR, LF, CHR ''b'']))
       [CHR ''a'', CR, LF, CHR ''b'']"
  by (simp add: GeventPlugin_onModuleSourceCode_def is_linebreak_def startswith_def)

text \<open>
  Claim C2, amended. For the module \<open>gevent._config\<close> and every source text, the
  result of \<open>GeventPlugin.onModuleSourceCode\<close> is the lines of the source text, each
  unchanged and in their order, followed by the one line
  \<open>config.track_greenlet_tree = False\<close>, joined by line feeds; when the line feed is
  the only line terminator in the source text, the result is the source text, a line
  feed if the text is not empty and does not end in one, and the line. For every other
  module name the source text is returned unchanged.
\<close>

theorem GeventPlugin_onModuleSourceCode_appends_line:
  "fst (GeventPlugin_onModuleSourceCode ''gevent._config'' source_code) =
     str_join [LF] (splitlines source_code @ [''config.track_greenlet_tree = False'']) \<and>
   splitlines (fst (GeventPlugin_onModuleSourceCode ''gevent._config'' source_code)) =
     splitlines source_code @ [''config.track_greenlet_tree = False''] \<and>
   ((\<forall>c\<in>set source_code. is_linebreak c \<longrightarrow> c = LF) \<longrightarrow>
      fst (GeventPlugin_onModuleSourceCode ''gevent._config'' source_code) =
        (if source_code = [] \<or> last source_code = LF then source_code else source_code @ [LF]) @
        ''config.track_greenlet_tree = False'') \<and>
   (module_name \<noteq> ''gevent._config'' \<longrightarrow>
      fst (GeventPlugin_onModuleSourceCode module_name source_code) = source_code)"
proof -
  have r: "fst (GeventPlugin_onModuleSourceCode ''gevent._config'' source_code) =
     str_join [LF] (splitlines source_code @ [''config.track_greenlet_tree = False''])"
    by (simp add: GeventPlugin_onModuleSourceCode_def)
  have l: "\<forall>l\<in>set (splitlines source_code). \<forall>c\<in>set l. \<not> is_linebreak c"
    by (rule splitlines_lines)
  have "splitlines (str_join [LF] (splitlines source_code @ [''config.track_greenlet_tree = False''])) =
     splitlines source_code @ [''config.track_greenlet_tree = False'']"
    using l config_line_plain by (intro splitlines_join) simp_all
  moreover have "(\<forall>c\<in>set source_code. is_linebreak c \<longrightarrow> c = LF) \<longrightarrow>
     str_join [LF] (splitlines source_code @ [''config.track_greenlet_tree = False'']) =
        (if source_code = [] \<or> last source_code = LF then source_code else source_code @ [LF]) @
        ''config.track_greenlet_tree = False''"
    using join_splitlines_LF by blast
  moreover have "module_name \<noteq> ''gevent._config'' \<longrightarrow>
      fst (GeventPlugin_onModuleSourceCode module_name source_code) = source_code"
    by (simp add: GeventPlugin_onModuleSourceCode_def)
  ultimately show ?thesis unfolding r by (simp only: simp_thms)
qed

theorem GeventPlugin_onModuleSourceCode_appends_line_witness:
  "\<not> is_linebreak (CHR ''a'') \<and> \<not> is_linebreak (CHR ''b'') \<and>
   ''gevent.hub'' \<noteq> ''gevent._config'' \<and>
   fst (GeventPlugin_onModuleSourceCode ''gevent._config'' [CHR ''a'', LF, CHR ''b'']) =
     [CHR ''a'', LF, CHR ''b'', LF] @ ''config.track_greenlet_tree = False'' \<and>
   fst (GeventPlugin_onModuleSourceCode ''gevent.hub'' [CHR ''a'', LF, CHR ''b'']) = [CHR ''a'', LF, CHR ''b'']"
  using GeventPlugin_onModuleSourceCode_appends_line [of "[CHR ''a'', LF, CHR ''b'']" "''gevent.hub''"]
  by (simp add: is_linebreak_def)

subsection \<open>The file system\<close>































subsection \<open>The example host\<close>


lemma example_host_binaries:
  "get_torch_core_binaries example_host example_world =
     Inr [(''/opt/Py/Torch/lib/C10.dll'', ''.''), (''/opt/Py/Torch/lib/torch.h'', ''.'')]"
  by (simp add: get_torch_core_binaries_def get_module_file_attribute_def example_host_def
      example_world_def example_loader_def posix_join_def posix_split_def os_path_dirname_def
      startswith_def endswith_def endswith_any_def os_path_isdir_def)

lemma example_host_body_c10:
  "considerExtraDlls_body example_host ''out.dist'' (''/opt/Py/Torch/lib/C10.dll'', ''.'')
     \<lparr>dirs = {''/'', ''/opt'', ''/opt/Py'', ''/opt/Py/Torch'', ''/opt/Py/Torch/lib'', ''out.dist''}, files = {}, events = es\<rparr> =
   (Inr (), \<lparr>dirs = {''out.dist/torch/lib'', ''out.dist/torch'', ''/'', ''/opt'', ''/opt/Py'', ''/opt/Py/Torch'', ''/opt/Py/Torch/lib'', ''out.dist''},
      files = {''out.dist/torch/lib/c10.dll''},
      events = es @ [Mkdir ''out.dist/torch'', Mkdir ''out.dist/torch/lib'',
        Copy ''/opt/py/torch/lib/c10.dll'' ''out.dist/torch/lib/c10.dll'']\<rparr>)"
  by (simp add: considerExtraDlls_body_def Let_def example_host_def ascii_lower_def str_find_def
      startswith_def endswith_def slice_from_def posix_join_def posix_split_def
      os_path_dirname_def os_path_exists_def os_makedirs.simps makedirs_split_def
      makedirs_last_def os_mkdir_def shutil_copy_def)

lemma example_host_body_torch_h:
  "considerExtraDlls_body example_host ''out.dist'' (''/opt/Py/Torch/lib/torch.h'', ''.'')
     \<lparr>dirs = {''out.dist/torch/lib'', ''out.dist/torch'', ''/'', ''/opt'', ''/opt/Py'', ''/opt/Py/Torch'', ''/opt/Py/Torch/lib'', ''out.dist''},
      files = {''out.dist/torch/lib/c10.dll''}, events = es\<rparr> =
   (Inr (), \<lparr>dirs = {''out.dist/torch/lib'', ''out.dist/torch'', ''/'', ''/opt'', ''/opt/Py'', ''/opt/Py/Torch'', ''/opt/Py/Torch/lib'', ''out.dist''},
      files = {''out.dist/torch/lib/torch.h'', ''out.dist/torch/lib/c10.dll''},
      events = es @ [Copy ''/opt/py/torch/lib/torch.h'' ''out.dist/torch/lib/torch.h'']\<rparr>)"
  by (simp add: considerExtraDlls_body_def Let_def example_host_def ascii_lower_def str_find_def
      startswith_def endswith_def slice_from_def posix_join_def posix_split_def
      os_path_dirname_def os_path_exists_def os_makedirs.simps makedirs_split_def
      makedirs_last_def os_mkdir_def shutil_copy_def)

lemma example_host_copy_loop:
  "considerExtraDlls_loop example_host ''out.dist''
     [(''/opt/Py/Torch/lib/C10.dll'', ''.''), (''/opt/Py/Torch/lib/torch.h'', ''.'')]
     \<lparr>dirs = {''/'', ''/opt'', ''/opt/Py'', ''/opt/Py/Torch'', ''/opt/Py/Torch/lib'', ''out.dist''}, files = {}, events = es\<rparr> =
   (Inr (), \<lparr>dirs = {''out.dist/torch/lib'', ''out.dist/torch'', ''/'', ''/opt'', ''/opt/Py'', ''/opt/Py/Torch'', ''/opt/Py/Torch/lib'', ''out.dist''},
      files = {''out.dist/torch/lib/torch.h'', ''out.dist/torch/lib/c10.dll''},
      events = es @ [Mkdir ''out.dist/torch'', Mkdir ''out.dist/torch/lib'',
        Copy ''/opt/py/torch/lib/c10.dll'' ''out.dist/torch/lib/c10.dll'',
        Copy ''/opt/py/torch/lib/torch.h'' ''out.dist/torch/lib/torch.h'']\<rparr>)"
  by (simp add: example_host_body_c10 example_host_body_torch_h)

lemma example_host_torch_call:
  "TorchPlugin_considerExtraDlls example_host ''out.dist'' \<lparr>getFullName = ''torch''\<rparr>
     (TorchPlugin_init, example_world) =
   (Inr (), \<lparr>files_copied = True\<rparr>,
    \<lparr>dirs = {''out.dist/torch/lib'', ''out.dist/torch'', ''/'', ''/opt'', ''/opt/Py'', ''/opt/Py/Torch'', ''/opt/Py/Torch/lib'', ''out.dist''},
      files = {''out.dist/torch/lib/torch.h'', ''out.dist/torch/lib/c10.dll''},
      events = [Info [], Info '' Copying files from 'torch/lib':'',
        Mkdir ''out.dist/torch'', Mkdir ''out.dist/torch/lib'',
        Copy ''/opt/py/torch/lib/c10.dll'' ''out.dist/torch/lib/c10.dll'',
        Copy ''/opt/py/torch/lib/torch.h'' ''out.dist/torch/lib/torch.h'',
        Info '' Copied 2 binaries.'']\<rparr>)"
proof -
  have n: "str_of_nat (Suc (Suc 0)) = ''2''" by (simp add: str_of_nat.simps)
  have w: "info '' Copying files from 'torch/lib':'' (info [] example_world) =
    \<lparr>dirs = {''/'', ''/opt'', ''/opt/Py'', ''/opt/Py/Torch'', ''/opt/Py/Torch/lib'', ''out.dist''}, files = {},
     events = [] @ [Info [], Info '' Copying files from 'torch/lib':'']\<rparr>"
    by (simp add: info_def example_world_def)
  show ?thesis
    unfolding TorchPlugin_considerExtraDlls_def Let_def fst_conv snd_conv
      example_host_binaries sum.case w example_host_copy_loop
    by (simp add: TorchPlugin_init_def info_def n)
qed





subsection \<open>The destinations of TorchPlugin.considerExtraDlls\<close>



subsection \<open>The once-only copy of TorchPlugin.considerExtraDlls\<close>

lemma considerExtraDlls_done:
  "files_copied p \<Longrightarrow> TorchPlugin_considerExtraDlls h dist_dir m (p, w) = (Inr (), p, w)"
  by (simp add: TorchPlugin_considerExtraDlls_def)

lemma considerExtraDlls_other:
  "\<not> files_copied p \<Longrightarrow> getFullName m \<noteq> ''torch'' \<Longrightarrow>
   TorchPlugin_considerExtraDlls h dist_dir m (p, w) = (Inr (), p, w)"
  by (simp add: TorchPlugin_considerExtraDlls_def)

lemma considerExtraDlls_torch:
  "\<not> files_copied p \<Longrightarrow> getFullName m = ''torch'' \<Longrightarrow>
   files_copied (fst (snd (TorchPlugin_considerExtraDlls h dist_dir m (p, w))))"
  by (simp add: TorchPlugin_considerExtraDlls_def Let_def split: sum.splits prod.splits)

lemma considerExtraDlls_calls_done:
  "files_copied p \<Longrightarrow>
   considerExtraDlls_calls h cs (p, w) = (replicate (length cs) (Inr ()), p, w)"
  by (induction cs) (simp_all add: considerExtraDlls_done)

lemma considerExtraDlls_calls_other:
  "\<not> files_copied p \<Longrightarrow> \<forall>c\<in>set cs. getFullName (snd c) \<noteq> ''torch'' \<Longrightarrow>
   considerExtraDlls_calls h cs (p, w) = (replicate (length cs) (Inr ()), p, w)"
  by (induction cs) (simp_all add: considerExtraDlls_other)

lemma considerExtraDlls_calls_append:
  "considerExtraDlls_calls h (cs @ ds) s =
     (case considerExtraDlls_calls h cs s of
        (rs, s1) \<Rightarrow> (case considerExtraDlls_calls h ds s1 of (rs2, s2) \<Rightarrow> (rs @ rs2, s2)))"
  by (induction cs arbitrary: s) (simp_all split: prod.splits)

text \<open>
  Claim C3. In every sequence of calls of \<open>TorchPlugin.considerExtraDlls\<close> on one
  plugin object, starting with \<open>files_copied = False\<close>: the calls before the first
  one for the module \<open>torch\<close> return the empty tuple and leave the flag and the world
  as they are; the first call for \<open>torch\<close> sets the flag; and every later call,
  whatever its module, returns the empty tuple and leaves the flag set and the world
  unchanged, so nothing is copied outside that one call.
\<close>

theorem considerExtraDlls_copies_once:
  "\<forall>c\<in>set pre. getFullName (snd c) \<noteq> ''torch'' \<Longrightarrow> getFullName m = ''torch'' \<Longrightarrow>
   considerExtraDlls_calls h pre (TorchPlugin_init, w) =
     (replicate (length pre) (Inr ()), TorchPlugin_init, w) \<and>
   (case TorchPlugin_considerExtraDlls h dist_dir m (TorchPlugin_init, w) of
      (r, p1, w1) \<Rightarrow>
        files_copied p1 \<and>
        considerExtraDlls_calls h post (p1, w1) = (replicate (length post) (Inr ()), p1, w1) \<and>
        considerExtraDlls_calls h (pre @ (dist_dir, m) # post) (TorchPlugin_init, w) =
          (replicate (length pre) (Inr ()) @ r # replicate (length post) (Inr ()), p1, w1))"
proof -
  assume pre: "\<forall>c\<in>set pre. getFullName (snd c) \<noteq> ''torch''" and m: "getFullName m = ''torch''"
  have i: "\<not> files_copied TorchPlugin_init" by (simp add: TorchPlugin_init_def)
  have a: "considerExtraDlls_calls h pre (TorchPlugin_init, w) =
     (replicate (length pre) (Inr ()), TorchPlugin_init, w)"
    using i pre by (rule considerExtraDlls_calls_other)
  obtain r p1 w1 where c: "TorchPlugin_considerExtraDlls h dist_dir m (TorchPlugin_init, w) = (r, p1, w1)"
    by (cases "TorchPlugin_considerExtraDlls h dist_dir m (TorchPlugin_init, w)") auto
  have f: "files_copied p1" using considerExtraDlls_torch [OF i m, of h dist_dir w] c by simp
  have b: "considerExtraDlls_calls h post (p1, w1) = (replicate (length post) (Inr ()), p1, w1)"
    using f by (rule considerExtraDlls_calls_done)
  have "considerExtraDlls_calls h (pre @ (dist_dir, m) # post) (TorchPlugin_init, w) =
          (replicate (length pre) (Inr ()) @ r # replicate (length post) (Inr ()), p1, w1)"
    by (simp add: considerExtraDlls_calls_append a b c)
  with a f b show ?thesis by (simp add: c)
qed

theorem considerExtraDlls_copies_once_witness:
  "getFullName (snd (''out.dist'', \<lparr>getFullName = ''os''\<rparr>)) \<noteq> ''torch'' \<and>
   getFullName \<lparr>getFullName = ''torch''\<rparr> = ''torch'' \<and>
   considerExtraDlls_calls example_host
     ([(''out.dist'', \<lparr>getFullName = ''os''\<rparr>)] @ (''out.dist'', \<lparr>getFullName = ''torch''\<rparr>) #
      [(''out.dist'', \<lparr>getFullName = ''torch''\<rparr>), (''out.dist'', \<lparr>getFullName = ''torch.nn''\<rparr>)])
     (TorchPlugin_init, example_world) =
   ([Inr (), Inr (), Inr (), Inr ()], \<lparr>files_copied = True\<rparr>,
    \<lparr>dirs = {''out.dist/torch/lib'', ''out.dist/torch'', ''/'', ''/opt'', ''/opt/Py'', ''/opt/Py/Torch'', ''/opt/Py/Torch/lib'', ''out.dist''},
      files = {''out.dist/torch/lib/torch.h'', ''out.dist/torch/lib/c10.dll''},
      events = [Info [], Info '' Copying files from 'torch/lib':'',
        Mkdir ''out.dist/torch'', Mkdir ''out.dist/torch/lib'',
        Copy ''/opt/py/torch/lib/c10.dll'' ''out.dist/torch/lib/c10.dll'',
        Copy ''/opt/py/torch/lib/torch.h'' ''out.dist/torch/lib/torch.h'',
        Info '' Copied 2 binaries.'']\<rparr>)"
proof -
  have p: "\<forall>c\<in>set [(''out.dist'', \<lparr>getFullName = ''os''\<rparr>)]. getFullName (snd c) \<noteq> ''torch''"
    by simp
  have m: "getFullName \<lparr>getFullName = ''torch''\<rparr> = ''torch''" by simp
  show ?thesis
    using considerExtraDlls_copies_once [OF p m, where h = example_host and w = example_world and dist_dir = "''out.dist''"
        and post = "[(''out.dist'', \<lparr>getFullName = ''torch''\<rparr>), (''out.dist'', \<lparr>getFullName = ''torch.nn''\<rparr>)]"]
    by (simp add: example_host_torch_call)
qed

end
